theory Spec2Isabelle
  imports Main
begin

section \<open>Python values used by cert\_checker.py\<close>

text \<open>
  Strings are byte lists: a character outside ASCII is written as its UTF-8 bytes. The
  program never measures a string, so nothing depends on bytes versus code points.
\<close>

definition nl :: string where
  "nl = [CHR 0x0A]"

definition dq :: string where
  "dq = [CHR 0x22]"

definition sq :: string where
  "sq = [CHR 0x27]"

definition sp :: "nat \<Rightarrow> string" where
  "sp n = replicate n (CHR '' '')"

text \<open>\<^verbatim>\<open>str(n)\<close> for an unbounded Python integer.\<close>

fun str_nat :: "nat \<Rightarrow> string" where
  "str_nat n =
     (if n < 10 then [''0123456789'' ! n]
      else str_nat (n div 10) @ [''0123456789'' ! (n mod 10)])"

declare str_nat.simps [simp del]

definition str_int :: "int \<Rightarrow> string" where
  "str_int i = (if i < 0 then CHR ''-'' # str_nat (nat (- i)) else str_nat (nat i))"

text \<open>
  Truth value of an \<^verbatim>\<open>Optional[str]\<close>: \<^verbatim>\<open>None\<close> and the empty string are false.
\<close>

definition truthy :: "string option \<Rightarrow> bool" where
  "truthy v = (case v of None \<Rightarrow> False | Some s \<Rightarrow> s \<noteq> [])"

text \<open>\<^verbatim>\<open>sep.join(xs)\<close>.\<close>

fun join :: "string \<Rightarrow> string list \<Rightarrow> string" where
  "join sep [] = []"
| "join sep [x] = x"
| "join sep (x # y # ys) = x @ sep @ join sep (y # ys)"

text \<open>
  The instances of \<^verbatim>\<open>Exception\<close> the program can meet, by the \<^verbatim>\<open>except\<close> clause
  that takes them: \<^verbatim>\<open>socket.timeout\<close>, \<^verbatim>\<open>socket.gaierror\<close>, \<^verbatim>\<open>ssl.SSLError\<close>, and the rest.
  Each carries the text \<^verbatim>\<open>str(e)\<close> is built from. \<^verbatim>\<open>KeyboardInterrupt\<close> and
  \<^verbatim>\<open>SystemExit\<close> are not instances of \<^verbatim>\<open>Exception\<close>; Python delivers the first to the
  main thread only, and the fetches run on pool threads.
\<close>

datatype py_exception =
    SocketTimeout string
  | GaiError string
  | SSLError string
  | KeyError string
  | AttributeError string
  | TypeError string
  | OtherException string

fun str_exception :: "py_exception \<Rightarrow> string" where
  "str_exception (SocketTimeout m) = m"
| "str_exception (GaiError m) = m"
| "str_exception (SSLError m) = m"
| "str_exception (KeyError k) = sq @ k @ sq"
| "str_exception (AttributeError m) = m"
| "str_exception (TypeError m) = m"
| "str_exception (OtherException m) = m"

subsection \<open>Naive datetime values and their difference\<close>

text \<open>
  A \<^verbatim>\<open>datetime\<close> without time zone, with the fields Python stores.
  \<^verbatim>\<open>datetime.strptime\<close> and \<^verbatim>\<open>datetime.now()\<close> both return such values.
\<close>

record datetime =
  dt_year :: int
  dt_month :: int
  dt_day :: int
  dt_hour :: int
  dt_minute :: int
  dt_second :: int
  dt_microsecond :: int

definition is_leap :: "int \<Rightarrow> bool" where
  "is_leap y = (y mod 4 = 0 \<and> (y mod 100 \<noteq> 0 \<or> y mod 400 = 0))"

definition days_before_year :: "int \<Rightarrow> int" where
  "days_before_year year =
     (let y = year - 1 in y * 365 + y div 4 - y div 100 + y div 400)"

text \<open>
  The library's table of days before each month; a datetime's month is always in 1..12
  (the constructor checks it), the value outside that range is never read.
\<close>

definition days_before_month :: "int \<Rightarrow> int \<Rightarrow> int" where
  "days_before_month year month =
     (if 1 \<le> month \<and> month \<le> 12
      then [-1, 0, 31, 59, 90, 120, 151, 181, 212, 243, 273, 304, 334] ! nat month
           + (if month > 2 \<and> is_leap year then 1 else 0)
      else 0)"

definition toordinal :: "datetime \<Rightarrow> int" where
  "toordinal d =
     days_before_year (dt_year d) + days_before_month (dt_year d) (dt_month d) + dt_day d"

record timedelta =
  td_days :: int
  td_seconds :: int
  td_microseconds :: int

text \<open>
  \<^verbatim>\<open>timedelta(days, seconds, microseconds)\<close> on integers: the constructor carries
  microseconds into seconds and seconds into days with \<^verbatim>\<open>divmod\<close>, which rounds toward
  minus infinity as \<open>div\<close> and \<open>mod\<close> on \<open>int\<close> do.
\<close>

definition timedelta_new :: "int \<Rightarrow> int \<Rightarrow> int \<Rightarrow> timedelta" where
  "timedelta_new days seconds microseconds =
     (let days1 = seconds div 86400;
          seconds1 = seconds mod 86400;
          d1 = days + days1;
          s1 = seconds1;
          seconds2 = microseconds div 1000000;
          microseconds2 = microseconds mod 1000000;
          days2 = seconds2 div 86400;
          seconds3 = seconds2 mod 86400;
          d2 = d1 + days2;
          s2 = s1 + seconds3;
          seconds4 = microseconds2 div 1000000;
          us = microseconds2 mod 1000000;
          s3 = s2 + seconds4;
          days3 = s3 div 86400;
          s = s3 mod 86400;
          d = d2 + days3
      in \<lparr>td_days = d, td_seconds = s, td_microseconds = us\<rparr>)"

text \<open>\<^verbatim>\<open>a - b\<close> on two naive datetimes.\<close>

definition datetime_sub :: "datetime \<Rightarrow> datetime \<Rightarrow> timedelta" where
  "datetime_sub a b =
     (let days1 = toordinal a;
          days2 = toordinal b;
          secs1 = dt_second a + dt_minute a * 60 + dt_hour a * 3600;
          secs2 = dt_second b + dt_minute b * 60 + dt_hour b * 3600
      in timedelta_new (days1 - days2) (secs1 - secs2) (dt_microsecond a - dt_microsecond b))"

text \<open>
  The position of a naive reading on the timeline of the clock it was read from, in
  microseconds, counted with the library's own day numbers. Two readings of one clock
  are as far apart as their positions. A reading in GMT and a reading in local time are
  not: their positions differ by the distance of the instants and the offset of the zone.
  The program never computes this number.
\<close>

definition microseconds_of :: "datetime \<Rightarrow> int" where
  "microseconds_of d =
     ((toordinal d * 86400 + dt_hour d * 3600 + dt_minute d * 60 + dt_second d) * 1000000
      + dt_microsecond d)"

text \<open>
  \<^verbatim>\<open>strftime\<close> for the two formats the program uses. Fields are padded with zeros to
  their width (\<^verbatim>\<open>%Y\<close> to four digits, the others to two).
\<close>

definition zfill :: "nat \<Rightarrow> string \<Rightarrow> string" where
  "zfill w s = replicate (w - length s) (CHR ''0'') @ s"

definition strftime_date :: "datetime \<Rightarrow> string" where
  "strftime_date d =
     zfill 4 (str_int (dt_year d)) @ ''-'' @ zfill 2 (str_int (dt_month d)) @ ''-''
     @ zfill 2 (str_int (dt_day d))"

definition strftime_datetime :: "datetime \<Rightarrow> string" where
  "strftime_datetime d =
     strftime_date d @ '' '' @ zfill 2 (str_int (dt_hour d)) @ '':''
     @ zfill 2 (str_int (dt_minute d)) @ '':'' @ zfill 2 (str_int (dt_second d))"

section \<open>Configuration\<close>

text \<open>
  The configuration is a dictionary read from YAML or JSON. A key the program reads
  with \<^verbatim>\<open>.get(key, default)\<close> or with \<^verbatim>\<open>[key]\<close> inside a \<^verbatim>\<open>try\<close> is an optional
  field.
\<close>

record site =
  site_hostname :: string
  site_port :: "int option"

record thresholds =
  th_critical :: "int option"
  th_warning :: "int option"

record email_config =
  ec_enabled :: "bool option"
  ec_subject :: "string option"
  ec_from :: "string option"
  ec_to :: "string list option"
  ec_smtp_server :: "string option"
  ec_smtp_port :: "int option"
  ec_use_tls :: "bool option"
  ec_username :: "string option"
  ec_password :: "string option"

record webhook_config =
  wc_enabled :: "bool option"
  wc_url :: "string option"
  wc_type :: "string option"

record alerts_config =
  ac_enabled :: "bool option"
  ac_email :: "email_config option"
  ac_webhook :: "webhook_config option"

record config =
  cfg_websites :: "site list option"
  cfg_max_workers :: "int option"
  cfg_thresholds :: "thresholds option"
  cfg_alerts :: "alerts_config option"

text \<open>\<^verbatim>\<open>d.get(key, default)\<close>.\<close>

definition get_default :: "'a option \<Rightarrow> 'a \<Rightarrow> 'a" where
  "get_default v dflt = (case v of None \<Rightarrow> dflt | Some x \<Rightarrow> x)"

section \<open>Results, payloads and observable events\<close>

text \<open>
  One entry of \<^verbatim>\<open>self.results\<close>: the dictionary with the keys \<^verbatim>\<open>hostname\<close>, \<^verbatim>\<open>port\<close>,
  \<^verbatim>\<open>expiry_date\<close>, \<^verbatim>\<open>error\<close>, \<^verbatim>\<open>days_until_expiry\<close> and \<^verbatim>\<open>status\<close>, all always
  present (\<^verbatim>\<open>None\<close> is a value, not a missing key).
\<close>

record check_result =
  r_hostname :: string
  r_port :: int
  r_expiry_date :: "datetime option"
  r_error :: "string option"
  r_days_until_expiry :: "int option"
  r_status :: string

record slack_field =
  sf_title :: string
  sf_value :: string
  sf_short :: bool

record slack_attachment =
  sa_color :: string
  sa_fields :: "slack_field list"
  sa_footer :: string
  sa_ts :: int

record slack_payload =
  sp_text :: string
  sp_attachments :: "slack_attachment list"

record teams_fact =
  tf_name :: string
  tf_value :: string

record teams_section =
  ts_activityTitle :: string
  ts_facts :: "teams_fact list"

record teams_payload =
  tp_type :: string
  tp_context :: string
  tp_summary :: string
  tp_themeColor :: string
  tp_title :: string
  tp_sections :: "teams_section list"

datatype webhook_payload = SlackJson slack_payload | TeamsJson teams_payload

record email_message =
  em_subject :: string
  em_from :: string
  em_to :: string
  em_html :: string

record smtp_request =
  rq_server :: string
  rq_port :: int
  rq_starttls :: bool
  rq_login :: "(string \<times> string) option"
  rq_message :: email_message

text \<open>
  What a run does to the outside, in order: log records, printed lines, an SMTP session
  opened to deliver a message, an HTTP POST of a webhook payload.
\<close>

datatype event =
    LogInfo string
  | LogError string
  | Print string
  | SmtpSession smtp_request
  | HttpPost string webhook_payload

section \<open>Fetching a certificate's expiry date\<close>

text \<open>
  What the body of the \<^verbatim>\<open>try\<close> in \<^verbatim>\<open>get_certificate_expiry\<close> meets after its first log
  line: either the connection, the handshake, \<^verbatim>\<open>getpeercert\<close>, the lookup of
  \<^verbatim>\<open>notAfter\<close> and \<^verbatim>\<open>strptime\<close> all succeed and give the expiry date, or one of them
  raises. The expiry date is the reading of \<^verbatim>\<open>notAfter\<close> in GMT, kept without its zone.
  The default SSL context verifies the certificate, so a certificate already expired at
  the handshake raises an SSL error.
\<close>

datatype tls_exchange = PeerCertExpiry datetime | Raises py_exception

fun get_certificate_expiry ::
  "string \<Rightarrow> int \<Rightarrow> int \<Rightarrow> tls_exchange \<Rightarrow> event list \<times> (string \<times> datetime option \<times> string option)"
where
  "get_certificate_expiry hostname port timeout (PeerCertExpiry expiry_date) =
     ([LogInfo (''Checking certificate for '' @ hostname @ '':'' @ str_int port)],
      (hostname, Some expiry_date, None))"
| "get_certificate_expiry hostname port timeout (Raises (SocketTimeout m)) =
     (let error_msg = ''Connection timeout for '' @ hostname
      in ([LogInfo (''Checking certificate for '' @ hostname @ '':'' @ str_int port),
           LogError error_msg],
          (hostname, None, Some error_msg)))"
| "get_certificate_expiry hostname port timeout (Raises (GaiError m)) =
     (let error_msg = ''DNS resolution failed for '' @ hostname
      in ([LogInfo (''Checking certificate for '' @ hostname @ '':'' @ str_int port),
           LogError error_msg],
          (hostname, None, Some error_msg)))"
| "get_certificate_expiry hostname port timeout (Raises (SSLError m)) =
     (let error_msg = ''SSL error for '' @ hostname @ '': '' @ str_exception (SSLError m)
      in ([LogInfo (''Checking certificate for '' @ hostname @ '':'' @ str_int port),
           LogError error_msg],
          (hostname, None, Some error_msg)))"
| "get_certificate_expiry hostname port timeout (Raises e) =
     (let error_msg = ''Unexpected error for '' @ hostname @ '': '' @ str_exception e
      in ([LogInfo (''Checking certificate for '' @ hostname @ '':'' @ str_int port),
           LogError error_msg],
          (hostname, None, Some error_msg)))"

section \<open>Classifying one fetched result\<close>

text \<open>
  The body of the loop over completed futures in \<^verbatim>\<open>check_all_certificates\<close>: \<open>fetched\<close> is
  what \<^verbatim>\<open>future.result()\<close> returns, \<open>now\<close> what \<^verbatim>\<open>datetime.now()\<close> reads in this
  iteration: the local time of the machine, without zone. A datetime object is always
  true in a condition, so \<^verbatim>\<open>if expiry_date:\<close> tests for \<^verbatim>\<open>None\<close>.
\<close>

definition check_all_certificates_body ::
  "config \<Rightarrow> site \<Rightarrow> string \<times> datetime option \<times> string option \<Rightarrow> datetime \<Rightarrow> check_result"
where
  "check_all_certificates_body cfg st fetched now =
     (case fetched of (hostname, expiry_date, error) \<Rightarrow>
        let result = \<lparr>r_hostname = hostname,
                      r_port = get_default (site_port st) 443,
                      r_expiry_date = expiry_date,
                      r_error = error,
                      r_days_until_expiry = None,
                      r_status = (if truthy error then ''ERROR'' else ''OK'')\<rparr>
        in (case expiry_date of
              None \<Rightarrow> result
            | Some e \<Rightarrow>
                let days = td_days (datetime_sub e now);
                    ths = get_default (cfg_thresholds cfg) \<lparr>th_critical = None, th_warning = None\<rparr>
                in result\<lparr>r_days_until_expiry := Some days,
                          r_status :=
                            (if days \<le> get_default (th_critical ths) 7 then ''CRITICAL''
                             else if days \<le> get_default (th_warning ths) 30 then ''WARNING''
                             else ''OK'')\<rparr>))"

text \<open>
  The whole method. The pool runs the fetches concurrently; \<open>completed\<close> lists, in the
  order \<^verbatim>\<open>as_completed\<close> yields them, each site with what its fetch met and the clock
  reading of its iteration. The results are appended to \<^verbatim>\<open>self.results\<close>.
\<close>

fun check_all_certificates ::
  "config \<Rightarrow> check_result list \<Rightarrow> (site \<times> tls_exchange \<times> datetime) list \<Rightarrow> check_result list"
where
  "check_all_certificates cfg results [] = results"
| "check_all_certificates cfg results ((st, exchange, now) # completed) =
     check_all_certificates cfg
       (results @ [check_all_certificates_body cfg st
          (snd (get_certificate_expiry (site_hostname st) (get_default (site_port st) 443) 10 exchange))
          now])
       completed"

section \<open>Console report\<close>

text \<open>\<^verbatim>\<open>str(v)\<close> of an optional integer or string inside an f-string: \<^verbatim>\<open>None\<close> prints as its name.\<close>

definition str_opt_int :: "int option \<Rightarrow> string" where
  "str_opt_int v = (case v of None \<Rightarrow> ''None'' | Some i \<Rightarrow> str_int i)"

definition str_opt_str :: "string option \<Rightarrow> string" where
  "str_opt_str v = (case v of None \<Rightarrow> ''None'' | Some s \<Rightarrow> s)"

text \<open>U+26A0 U+FE0F, U+26A0, U+2713, U+2717 and U+2022 in UTF-8.\<close>

definition warning_emoji :: string where
  "warning_emoji = [CHR 0xE2, CHR 0x9A, CHR 0xA0, CHR 0xEF, CHR 0xB8, CHR 0x8F]"

definition warning_sign :: string where
  "warning_sign = [CHR 0xE2, CHR 0x9A, CHR 0xA0]"

definition check_mark :: string where
  "check_mark = [CHR 0xE2, CHR 0x9C, CHR 0x93]"

definition ballot_x :: string where
  "ballot_x = [CHR 0xE2, CHR 0x9C, CHR 0x97]"

definition bullet :: string where
  "bullet = [CHR 0xE2, CHR 0x80, CHR 0xA2]"

definition status_symbol :: "string \<Rightarrow> string" where
  "status_symbol st =
     (if st = ''OK'' then check_mark
      else if st = ''WARNING'' then warning_sign
      else if st = ''CRITICAL'' then ballot_x
      else if st = ''ERROR'' then ballot_x
      else ''?'')"

text \<open>
  One iteration of the loop of \<^verbatim>\<open>display_results\<close>: the lines printed, and the exception
  that ends the iteration if one is raised (\<^verbatim>\<open>None.strftime\<close>, \<^verbatim>\<open>None < 0\<close>).
\<close>

definition display_results_body :: "check_result \<Rightarrow> event list \<times> py_exception option" where
  "display_results_body result =
     (let head_lines =
            [Print (nl @ ''Website: '' @ r_hostname result @ '':'' @ str_int (r_port result)),
             Print (''Status: '' @ r_status result)]
      in if truthy (r_error result)
         then (head_lines @ [Print (''Error: '' @ str_opt_str (r_error result))], None)
         else (case r_expiry_date result of
                 None \<Rightarrow>
                   (head_lines,
                    Some (AttributeError
                      (sq @ ''NoneType'' @ sq @ '' object has no attribute '' @ sq @ ''strftime'' @ sq)))
               | Some expiry_date \<Rightarrow>
                   (let lines =
                          head_lines @
                          [Print (''Certificate Expiry Date: '' @ strftime_datetime expiry_date),
                           Print (''Days Until Expiry: '' @ str_opt_int (r_days_until_expiry result)
                                  @ '' days '' @ status_symbol (r_status result))]
                    in case r_days_until_expiry result of
                         None \<Rightarrow>
                           (lines,
                            Some (TypeError
                              (sq @ ''<'' @ sq @ '' not supported between instances of '' @ sq
                               @ ''NoneType'' @ sq @ '' and '' @ sq @ ''int'' @ sq)))
                       | Some days_until_expiry \<Rightarrow>
                           (if days_until_expiry < 0
                            then (lines @ [Print (warning_emoji @ ''  CERTIFICATE HAS EXPIRED!'')], None)
                            else (lines, None)))))"

fun display_results_loop :: "check_result list \<Rightarrow> event list \<times> py_exception option" where
  "display_results_loop [] = ([], None)"
| "display_results_loop (result # results) =
     (case display_results_body result of
        (lines, Some e) \<Rightarrow> (lines, Some e)
      | (lines, None) \<Rightarrow>
          (case display_results_loop results of (rest, raised) \<Rightarrow> (lines @ rest, raised)))"

definition display_results :: "datetime \<Rightarrow> check_result list \<Rightarrow> event list \<times> py_exception option" where
  "display_results now results =
     (let banner =
            [Print (nl @ replicate 80 (CHR ''='')),
             Print ''SSL/TLS CERTIFICATE EXPIRY CHECK RESULTS'',
             Print (replicate 80 (CHR ''='')),
             Print (''Scan completed at: '' @ strftime_datetime now),
             Print (replicate 80 (CHR ''-''))]
      in case display_results_loop results of
           (lines, Some e) \<Rightarrow> (banner @ lines, Some e)
         | (lines, None) \<Rightarrow> (banner @ lines @ [Print (nl @ replicate 80 (CHR ''=''))], None))"

section \<open>Alert rendering\<close>

definition status_color :: "string \<Rightarrow> string" where
  "status_color st =
     (if st = ''CRITICAL'' then ''#ff0000''
      else if st = ''WARNING'' then ''#ff9900''
      else if st = ''ERROR'' then ''#cc0000''
      else ''#000000'')"

definition email_header :: string where
  "email_header =
     nl @ sp 12 @ ''<html>'' @ nl
     @ sp 12 @ ''<body>'' @ nl
     @ sp 12 @ ''<h2>SSL Certificate Alert</h2>'' @ nl
     @ sp 12 @ ''<p>The following certificates require attention:</p>'' @ nl
     @ sp 12 @ ''<table border='' @ dq @ ''1'' @ dq @ '' cellpadding='' @ dq @ ''5'' @ dq
       @ '' cellspacing='' @ dq @ ''0'' @ dq @ ''>'' @ nl
     @ sp 12 @ ''<tr>'' @ nl
     @ sp 16 @ ''<th>Website</th>'' @ nl
     @ sp 16 @ ''<th>Status</th>'' @ nl
     @ sp 16 @ ''<th>Days Until Expiry</th>'' @ nl
     @ sp 16 @ ''<th>Expiry Date</th>'' @ nl
     @ sp 16 @ ''<th>Details</th>'' @ nl
     @ sp 12 @ ''</tr>'' @ nl
     @ sp 12"

text \<open>
  One table row of the e-mail. Every key of a result is present, so
  \<^verbatim>\<open>result.get('days_until_expiry', 'N/A')\<close> and
  \<^verbatim>\<open>result.get('error', 'Certificate expiring soon')\<close> return the stored value, which may
  be \<^verbatim>\<open>None\<close>; the defaults are never taken.
\<close>

definition email_row :: "check_result \<Rightarrow> string" where
  "email_row result =
     nl @ sp 16 @ ''<tr>'' @ nl
     @ sp 20 @ ''<td>'' @ r_hostname result @ '':'' @ str_int (r_port result) @ ''</td>'' @ nl
     @ sp 20 @ ''<td style='' @ dq @ ''color: '' @ status_color (r_status result)
       @ ''; font-weight: bold;'' @ dq @ ''>'' @ r_status result @ ''</td>'' @ nl
     @ sp 20 @ ''<td>'' @ str_opt_int (r_days_until_expiry result) @ ''</td>'' @ nl
     @ sp 20 @ ''<td>''
       @ (case r_expiry_date result of Some d \<Rightarrow> strftime_date d | None \<Rightarrow> ''N/A'')
       @ ''</td>'' @ nl
     @ sp 20 @ ''<td>'' @ str_opt_str (r_error result) @ ''</td>'' @ nl
     @ sp 16 @ ''</tr>'' @ nl
     @ sp 16"

definition email_footer :: string where
  "email_footer =
     nl @ sp 12 @ ''</table>'' @ nl
     @ sp 12 @ ''</body>'' @ nl
     @ sp 12 @ ''</html>'' @ nl
     @ sp 12"

definition text_entry :: "check_result \<Rightarrow> string" where
  "text_entry result =
     bullet @ '' '' @ r_hostname result @ '':'' @ str_int (r_port result) @ '' - ''
       @ r_status result @ nl
     @ (case r_days_until_expiry result of
          Some d \<Rightarrow> ''  Days until expiry: '' @ str_int d @ nl
        | None \<Rightarrow> [])
     @ (if truthy (r_error result) then ''  Error: '' @ str_opt_str (r_error result) @ nl else [])"

definition create_alert_message :: "check_result list \<Rightarrow> string \<Rightarrow> string" where
  "create_alert_message results format_type =
     (if format_type = ''email''
      then email_header @ concat (map email_row results) @ email_footer
      else ''SSL Certificate Alert'' @ nl @ nl @ concat (map text_entry results))"

definition slack_color :: "string \<Rightarrow> string" where
  "slack_color st =
     (if st = ''CRITICAL'' then ''danger''
      else if st = ''WARNING'' then ''warning''
      else if st = ''ERROR'' then ''danger''
      else ''#808080'')"

definition slack_fields :: "check_result \<Rightarrow> slack_field list" where
  "slack_fields result =
     [\<lparr>sf_title = ''Website'',
       sf_value = r_hostname result @ '':'' @ str_int (r_port result),
       sf_short = True\<rparr>,
      \<lparr>sf_title = ''Status'', sf_value = r_status result, sf_short = True\<rparr>]
     @ (case r_days_until_expiry result of
          Some d \<Rightarrow> [\<lparr>sf_title = ''Days Until Expiry'', sf_value = str_int d, sf_short = True\<rparr>]
        | None \<Rightarrow> [])
     @ (if truthy (r_error result)
        then [\<lparr>sf_title = ''Error'', sf_value = str_opt_str (r_error result), sf_short = False\<rparr>]
        else [])"

text \<open>
  The loop of \<^verbatim>\<open>_create_slack_payload\<close>; \<open>clock i\<close> is what
  \<^verbatim>\<open>int(datetime.now().timestamp())\<close> gives in iteration \<open>i\<close>.
\<close>

fun slack_attachments :: "(nat \<Rightarrow> int) \<Rightarrow> nat \<Rightarrow> check_result list \<Rightarrow> slack_attachment list" where
  "slack_attachments clock i [] = []"
| "slack_attachments clock i (result # results) =
     \<lparr>sa_color = slack_color (r_status result),
      sa_fields = slack_fields result,
      sa_footer = ''SSL Certificate Checker'',
      sa_ts = clock i\<rparr>
     # slack_attachments clock (Suc i) results"

definition create_slack_payload :: "(nat \<Rightarrow> int) \<Rightarrow> check_result list \<Rightarrow> slack_payload" where
  "create_slack_payload clock results =
     \<lparr>sp_text = warning_emoji @ '' SSL Certificate Alert'',
      sp_attachments = slack_attachments clock 0 results\<rparr>"

definition teams_facts :: "check_result \<Rightarrow> teams_fact list" where
  "teams_facts result =
     [\<lparr>tf_name = ''Website'',
       tf_value = r_hostname result @ '':'' @ str_int (r_port result)\<rparr>,
      \<lparr>tf_name = ''Status'', tf_value = r_status result\<rparr>]
     @ (case r_days_until_expiry result of
          Some d \<Rightarrow> [\<lparr>tf_name = ''Days Until Expiry'', tf_value = str_int d\<rparr>]
        | None \<Rightarrow> [])
     @ (if truthy (r_error result)
        then [\<lparr>tf_name = ''Error'', tf_value = str_opt_str (r_error result)\<rparr>]
        else [])"

fun teams_sections :: "check_result list \<Rightarrow> teams_section list" where
  "teams_sections [] = []"
| "teams_sections (result # results) =
     \<lparr>ts_activityTitle = ''Certificate Alert: '' @ r_hostname result,
      ts_facts = teams_facts result\<rparr>
     # teams_sections results"

definition create_teams_payload :: "check_result list \<Rightarrow> teams_payload" where
  "create_teams_payload results =
     \<lparr>tp_type = ''MessageCard'',
      tp_context = ''https://schema.org/extensions'',
      tp_summary = ''SSL Certificate Alert'',
      tp_themeColor = ''FF0000'',
      tp_title = warning_emoji @ '' SSL Certificate Alert'',
      tp_sections = teams_sections results\<rparr>"

section \<open>Sending alerts\<close>

text \<open>
  The outside world of the senders: what the SMTP session opened for a request meets
  (\<open>None\<close> when connecting, \<^verbatim>\<open>starttls\<close>, \<^verbatim>\<open>login\<close> and \<^verbatim>\<open>send_message\<close> all succeed,
  the exception otherwise), what \<^verbatim>\<open>requests.post\<close> followed by \<^verbatim>\<open>raise_for_status\<close>
  meets, and the clock read for the Slack footer.
\<close>

record env =
  env_smtp :: "smtp_request \<Rightarrow> py_exception option"
  env_http :: "string \<Rightarrow> webhook_payload \<Rightarrow> py_exception option"
  env_clock :: "nat \<Rightarrow> int"

text \<open>
  The body of the \<^verbatim>\<open>try\<close> of \<^verbatim>\<open>_send_email_alert\<close>: the events it causes and whether it
  ends by an exception. A missing key raises \<^verbatim>\<open>KeyError\<close>.
\<close>

definition send_email_alert_try ::
  "env \<Rightarrow> check_result list \<Rightarrow> email_config \<Rightarrow> event list \<times> (py_exception + unit)"
where
  "send_email_alert_try world results email_cfg =
     (let subject = get_default (ec_subject email_cfg) ''SSL Certificate Alert''
      in case ec_from email_cfg of
           None \<Rightarrow> ([], Inl (KeyError ''from''))
         | Some from_addr \<Rightarrow>
        (case ec_to email_cfg of
           None \<Rightarrow> ([], Inl (KeyError ''to''))
         | Some to_addrs \<Rightarrow>
        (let body = create_alert_message results ''email'';
             msg = \<lparr>em_subject = subject, em_from = from_addr,
                    em_to = join '', '' to_addrs, em_html = body\<rparr>
         in case ec_smtp_server email_cfg of
              None \<Rightarrow> ([], Inl (KeyError ''smtp_server''))
            | Some server \<Rightarrow>
           (case ec_smtp_port email_cfg of
              None \<Rightarrow> ([], Inl (KeyError ''smtp_port''))
            | Some smtp_port \<Rightarrow>
           (let request =
                  \<lparr>rq_server = server, rq_port = smtp_port,
                   rq_starttls = get_default (ec_use_tls email_cfg) True,
                   rq_login =
                     (if truthy (ec_username email_cfg) \<and> truthy (ec_password email_cfg)
                      then Some (str_opt_str (ec_username email_cfg),
                                 str_opt_str (ec_password email_cfg))
                      else None),
                   rq_message = msg\<rparr>
            in case env_smtp world request of
                 Some e \<Rightarrow> ([SmtpSession request], Inl e)
               | None \<Rightarrow>
                   ([SmtpSession request, LogInfo ''Email alert sent successfully''],
                    Inr ()))))))"

text \<open>\<^verbatim>\<open>except Exception as e\<close>: the exception is logged and the method returns.\<close>

definition send_email_alert ::
  "env \<Rightarrow> check_result list \<Rightarrow> email_config \<Rightarrow> event list \<times> (py_exception + unit)"
where
  "send_email_alert world results email_cfg =
     (case send_email_alert_try world results email_cfg of
        (events, Inl e) \<Rightarrow>
          (events @ [LogError (''Failed to send email alert: '' @ str_exception e)], Inr ())
      | (events, Inr u) \<Rightarrow> (events, Inr ()))"

text \<open>
  The body of the \<^verbatim>\<open>try\<close> of \<^verbatim>\<open>_send_webhook_alert\<close>. Where the success line is logged
  the type is \<^verbatim>\<open>slack\<close> or \<^verbatim>\<open>teams\<close>, so \<^verbatim>\<open>capitalize()\<close> gives one of two words.
\<close>

definition send_webhook_alert_try ::
  "env \<Rightarrow> check_result list \<Rightarrow> webhook_config \<Rightarrow> event list \<times> (py_exception + unit)"
where
  "send_webhook_alert_try world results webhook_cfg =
     (case wc_url webhook_cfg of
        None \<Rightarrow> ([], Inl (KeyError ''url''))
      | Some webhook_url \<Rightarrow>
          (let webhook_type = get_default (wc_type webhook_cfg) ''slack''
           in if webhook_type = ''slack'' \<or> webhook_type = ''teams''
              then (let payload =
                          (if webhook_type = ''slack''
                           then SlackJson (create_slack_payload (env_clock world) results)
                           else TeamsJson (create_teams_payload results))
                    in case env_http world webhook_url payload of
                         Some e \<Rightarrow> ([HttpPost webhook_url payload], Inl e)
                       | None \<Rightarrow>
                           ([HttpPost webhook_url payload,
                             LogInfo ((if webhook_type = ''slack'' then ''Slack'' else ''Teams'')
                                      @ '' webhook alert sent successfully'')],
                            Inr ()))
              else ([LogError (''Unsupported webhook type: '' @ webhook_type)], Inr ())))"

definition send_webhook_alert ::
  "env \<Rightarrow> check_result list \<Rightarrow> webhook_config \<Rightarrow> event list \<times> (py_exception + unit)"
where
  "send_webhook_alert world results webhook_cfg =
     (case send_webhook_alert_try world results webhook_cfg of
        (events, Inl e) \<Rightarrow>
          (events @ [LogError (''Failed to send webhook alert: '' @ str_exception e)], Inr ())
      | (events, Inr u) \<Rightarrow> (events, Inr ()))"

text \<open>The empty dictionaries \<^verbatim>\<open>{}\<close> that \<^verbatim>\<open>.get\<close> falls back to.\<close>

definition no_email_config :: email_config where
  "no_email_config =
     \<lparr>ec_enabled = None, ec_subject = None, ec_from = None, ec_to = None,
      ec_smtp_server = None, ec_smtp_port = None, ec_use_tls = None,
      ec_username = None, ec_password = None\<rparr>"

definition no_webhook_config :: webhook_config where
  "no_webhook_config = \<lparr>wc_enabled = None, wc_url = None, wc_type = None\<rparr>"

definition no_alerts_config :: alerts_config where
  "no_alerts_config = \<lparr>ac_enabled = None, ac_email = None, ac_webhook = None\<rparr>"

text \<open>The list comprehension of \<^verbatim>\<open>send_alerts\<close>.\<close>

definition alert_results :: "check_result list \<Rightarrow> check_result list" where
  "alert_results results =
     filter (\<lambda>r. r_status r \<in> set [''WARNING'', ''CRITICAL'', ''ERROR'']) results"

text \<open>
  \<^verbatim>\<open>send_alerts\<close>. A call that raised would end the method there, so the webhook is
  reached only when the e-mail call returned.
\<close>

definition send_alerts ::
  "env \<Rightarrow> config \<Rightarrow> check_result list \<Rightarrow> event list \<times> (py_exception + unit)"
where
  "send_alerts world cfg results =
     (let alerts_cfg = get_default (cfg_alerts cfg) no_alerts_config
      in if \<not> get_default (ac_enabled alerts_cfg) False
         then ([LogInfo ''Alerts are disabled in configuration''], Inr ())
         else (let selected = alert_results results
               in if selected = []
                  then ([LogInfo ''No certificates require alerts''], Inr ())
                  else (case (if get_default
                                   (ec_enabled (get_default (ac_email alerts_cfg) no_email_config))
                                   False
                              then send_email_alert world selected
                                     (get_default (ac_email alerts_cfg) no_email_config)
                              else ([], Inr ()))
                        of
                          (events1, Inl e) \<Rightarrow> (events1, Inl e)
                        | (events1, Inr u) \<Rightarrow>
                            (case (if get_default
                                        (wc_enabled
                                           (get_default (ac_webhook alerts_cfg) no_webhook_config))
                                        False
                                   then send_webhook_alert world selected
                                          (get_default (ac_webhook alerts_cfg) no_webhook_config)
                                   else ([], Inr ()))
                             of (events2, outcome) \<Rightarrow> (events1 @ events2, outcome)))))"

section \<open>The exit code\<close>

text \<open>The end of the \<^verbatim>\<open>try\<close> of \<^verbatim>\<open>main\<close>: the argument of the \<^verbatim>\<open>sys.exit\<close> reached.\<close>

definition main_exit_code :: "check_result list \<Rightarrow> int" where
  "main_exit_code results =
     (let critical_count =
            sum_list (map (\<lambda>r. (1::int)) (filter (\<lambda>r. r_status r = ''CRITICAL'') results))
      in if critical_count > 0 then 2
         else (let error_count =
                     sum_list (map (\<lambda>r. (1::int)) (filter (\<lambda>r. r_status r = ''ERROR'') results))
               in if error_count > 0 then 1 else 0))"

text \<open>
  \<^verbatim>\<open>main\<close> once the configuration is loaded: check, display unless quiet, send alerts,
  exit. \<^verbatim>\<open>sys.exit\<close> raises \<^verbatim>\<open>SystemExit\<close>, which \<^verbatim>\<open>except Exception\<close> does not catch; an
  exception out of the display or the senders is logged and exits with 1. The result is
  the events after the fetches and the exit code. An interrupt by the user (exit code
  130) comes from outside and is not part of this function.
\<close>

definition main ::
  "env \<Rightarrow> config \<Rightarrow> bool \<Rightarrow> (site \<times> tls_exchange \<times> datetime) list \<Rightarrow> datetime
     \<Rightarrow> event list \<times> int"
where
  "main world cfg quiet completed now =
     (let results = check_all_certificates cfg [] completed
      in case (if \<not> quiet then display_results now results else ([], None)) of
           (printed, Some e) \<Rightarrow>
             (printed @ [LogError (''Unexpected error: '' @ str_exception e)], 1)
         | (printed, None) \<Rightarrow>
             (case send_alerts world cfg results of
                (sent, Inl e) \<Rightarrow>
                  (printed @ sent @ [LogError (''Unexpected error: '' @ str_exception e)], 1)
              | (sent, Inr u) \<Rightarrow> (printed @ sent, main_exit_code results)))"

section \<open>Vocabulary of the properties\<close>

text \<open>Whether a string occurs inside another, and whether an event is a delivery attempt.\<close>

fun starts_with :: "string \<Rightarrow> string \<Rightarrow> bool" where
  "starts_with [] ys = True"
| "starts_with (x # xs) [] = False"
| "starts_with (x # xs) (y # ys) = (x = y \<and> starts_with xs ys)"

fun contains :: "string \<Rightarrow> string \<Rightarrow> bool" where
  "contains s [] = (s = [])"
| "contains s (y # ys) = (starts_with s (y # ys) \<or> contains s ys)"

fun is_send :: "event \<Rightarrow> bool" where
  "is_send (SmtpSession request) = True"
| "is_send (HttpPost url payload) = True"
| "is_send other = False"

fun is_http_post :: "event \<Rightarrow> bool" where
  "is_http_post (HttpPost url payload) = True"
| "is_http_post other = False"

fun is_smtp_session :: "event \<Rightarrow> bool" where
  "is_smtp_session (SmtpSession request) = True"
| "is_smtp_session other = False"

text \<open>The thresholds in force: the configured values, or 7 and 30 days.\<close>

definition critical_days :: "config \<Rightarrow> int" where
  "critical_days cfg =
     get_default
       (th_critical (get_default (cfg_thresholds cfg) \<lparr>th_critical = None, th_warning = None\<rparr>)) 7"

definition warning_days :: "config \<Rightarrow> int" where
  "warning_days cfg =
     get_default
       (th_warning (get_default (cfg_thresholds cfg) \<lparr>th_critical = None, th_warning = None\<rparr>)) 30"

text \<open>
  A result the console report can print: it has an error message, or both an expiry date
  and a day count.
\<close>

definition displayable :: "check_result \<Rightarrow> bool" where
  "displayable r =
     (truthy (r_error r) \<or> (r_expiry_date r \<noteq> None \<and> r_days_until_expiry r \<noteq> None))"

text \<open>
  The alert configuration as \<^verbatim>\<open>send_alerts\<close> reads it, with the defaults of its
  \<^verbatim>\<open>.get\<close> calls, and whether a delivery attempt was made from a given list of results.
\<close>

definition alerts_of :: "config \<Rightarrow> alerts_config" where
  "alerts_of cfg = get_default (cfg_alerts cfg) no_alerts_config"

definition email_of :: "config \<Rightarrow> email_config" where
  "email_of cfg = get_default (ac_email (alerts_of cfg)) no_email_config"

definition webhook_of :: "config \<Rightarrow> webhook_config" where
  "webhook_of cfg = get_default (ac_webhook (alerts_of cfg)) no_webhook_config"

definition alerts_on :: "config \<Rightarrow> bool" where
  "alerts_on cfg = get_default (ac_enabled (alerts_of cfg)) False"

definition email_on :: "config \<Rightarrow> bool" where
  "email_on cfg = get_default (ec_enabled (email_of cfg)) False"

definition webhook_on :: "config \<Rightarrow> bool" where
  "webhook_on cfg = get_default (wc_enabled (webhook_of cfg)) False"


fun built_from :: "env \<Rightarrow> check_result list \<Rightarrow> event \<Rightarrow> bool" where
  "built_from world rs (SmtpSession request) =
     (em_html (rq_message request) = create_alert_message rs ''email'')"
| "built_from world rs (HttpPost url payload) =
     (payload = SlackJson (create_slack_payload (env_clock world) rs)
      \<or> payload = TeamsJson (create_teams_payload rs))"
| "built_from world rs other = True"

fun is_log_error :: "event \<Rightarrow> bool" where
  "is_log_error (LogError m) = True"
| "is_log_error other = False"

text \<open>
  The content of one Slack attachment and of one Teams section, as title and value pairs.
\<close>

definition slack_entry :: "slack_attachment \<Rightarrow> (string \<times> string) list" where
  "slack_entry a = map (\<lambda>f. (sf_title f, sf_value f)) (sa_fields a)"

definition teams_entry :: "teams_section \<Rightarrow> (string \<times> string) list" where
  "teams_entry s = map (\<lambda>f. (tf_name f, tf_value f)) (ts_facts s)"

text \<open>
  What an alert entry for a result holds: the site and the status always, the day count
  only when there is one, the error message only when there is one.
\<close>

definition alert_entry :: "check_result \<Rightarrow> (string \<times> string) list" where
  "alert_entry r =
     [(''Website'', r_hostname r @ '':'' @ str_int (r_port r)), (''Status'', r_status r)]
     @ (case r_days_until_expiry r of
          Some d \<Rightarrow> [(''Days Until Expiry'', str_int d)]
        | None \<Rightarrow> [])
     @ (if truthy (r_error r) then [(''Error'', str_opt_str (r_error r))] else [])"


text \<open>Whether a rendered string says, in any letter case, that a certificate expired.\<close>

definition lower_char :: "char \<Rightarrow> char" where
  "lower_char c =
     (if (65::nat) \<le> of_char c \<and> of_char c \<le> (90::nat)
      then char_of (of_char c + (32::nat)) else c)"

definition mentions_expired :: "string \<Rightarrow> bool" where
  "mentions_expired s = contains ''expired'' (map lower_char s)"


text \<open>
  What a clock \<open>h\<close> hours east of UTC reads at the instant that reads \<open>d\<close> in UTC,
  when both readings fall on the same calendar day.
\<close>

definition local_reading :: "int \<Rightarrow> datetime \<Rightarrow> datetime" where
  "local_reading h d = d\<lparr>dt_hour := dt_hour d + h\<rparr>"





section \<open>Sample inputs\<close>

definition sample_date :: "int \<Rightarrow> int \<Rightarrow> datetime" where
  "sample_date m d =
     \<lparr>dt_year = 2025, dt_month = m, dt_day = d, dt_hour = 12, dt_minute = 0, dt_second = 0,
      dt_microsecond = 0\<rparr>"

definition sample_now :: datetime where
  "sample_now = sample_date 1 10"

definition sample_site :: site where
  "sample_site = \<lparr>site_hostname = ''example.com'', site_port = None\<rparr>"

definition sample_email :: email_config where
  "sample_email =
     \<lparr>ec_enabled = Some True, ec_subject = None, ec_from = Some ''certs@example.com'',
      ec_to = Some [''ops@example.com'', ''oncall@example.com''],
      ec_smtp_server = Some ''smtp.example.com'', ec_smtp_port = Some 587,
      ec_use_tls = None, ec_username = None, ec_password = None\<rparr>"

definition sample_webhook :: webhook_config where
  "sample_webhook =
     \<lparr>wc_enabled = Some True, wc_url = Some ''https://hooks.example.com/T0'', wc_type = None\<rparr>"

definition sample_config :: config where
  "sample_config =
     \<lparr>cfg_websites = Some [sample_site], cfg_max_workers = None,
      cfg_thresholds = Some \<lparr>th_critical = Some 7, th_warning = Some 30\<rparr>,
      cfg_alerts =
        Some \<lparr>ac_enabled = Some True, ac_email = Some sample_email,
              ac_webhook = Some sample_webhook\<rparr>\<rparr>"

text \<open>A configuration whose critical threshold lies above its warning threshold.\<close>

definition crossed_config :: config where
  "crossed_config =
     \<lparr>cfg_websites = Some [sample_site], cfg_max_workers = None,
      cfg_thresholds = Some \<lparr>th_critical = Some 10, th_warning = Some 5\<rparr>,
      cfg_alerts = None\<rparr>"

definition sample_result :: "string \<Rightarrow> int option \<Rightarrow> string option \<Rightarrow> check_result" where
  "sample_result st days err =
     \<lparr>r_hostname = ''example.com'', r_port = 443,
      r_expiry_date = (case days of None \<Rightarrow> None | Some d \<Rightarrow> Some (sample_date 1 (10 + d))),
      r_error = err, r_days_until_expiry = days, r_status = st\<rparr>"

text \<open>A world where every delivery succeeds, and one where every delivery fails.\<close>

definition calm_world :: env where
  "calm_world =
     \<lparr>env_smtp = (\<lambda>request. None), env_http = (\<lambda>url payload. None),
      env_clock = (\<lambda>i. 1736510400)\<rparr>"

definition broken_world :: env where
  "broken_world =
     \<lparr>env_smtp = (\<lambda>request. Some (OtherException ''Connection refused'')),
      env_http = (\<lambda>url payload. Some (OtherException ''503 Server Error'')),
      env_clock = (\<lambda>i. 1736510400)\<rparr>"

definition sample_time :: "int \<Rightarrow> int \<Rightarrow> int \<Rightarrow> int \<Rightarrow> int \<Rightarrow> int \<Rightarrow> datetime" where
  "sample_time m d h mi sec us =
     \<lparr>dt_year = 2025, dt_month = m, dt_day = d, dt_hour = h, dt_minute = mi, dt_second = sec,
      dt_microsecond = us\<rparr>"

text \<open>The sample site, fetched with success and classified at a given clock reading.\<close>

definition classify_sample :: "config \<Rightarrow> datetime \<Rightarrow> datetime \<Rightarrow> check_result" where
  "classify_sample cfg e now =
     check_all_certificates_body cfg sample_site
       (snd (get_certificate_expiry ''example.com'' 443 10 (PeerCertExpiry e))) now"

section \<open>The fetch never raises\<close>

lemma fetch_success:
  "snd (get_certificate_expiry h p t (PeerCertExpiry e)) = (h, Some e, None)"
  by simp

lemma fetch_failure:
  "\<exists>m. snd (get_certificate_expiry h p t (Raises e)) = (h, None, Some m) \<and> m \<noteq> []"
  by (cases e) (simp_all add: Let_def)

text \<open>
  C10. Whatever the TLS exchange meets, \<^verbatim>\<open>get_certificate_expiry\<close> returns a triple: its
  first component is the hostname it was given, and exactly one of the expiry date and
  the error message is present. After a successful exchange it is the expiry date, with
  no error; after an exception of any kind (timeout, DNS failure, SSL error, anything
  else) it is a non-empty error message, with no expiry date.
\<close>

theorem get_certificate_expiry_total:
  "\<exists>events expiry err.
     get_certificate_expiry h p t exchange = (events, h, expiry, err) \<and>
     (expiry = None) = (err \<noteq> None) \<and>
     (case exchange of
        PeerCertExpiry d \<Rightarrow> expiry = Some d \<and> err = None
      | Raises e \<Rightarrow> expiry = None \<and> truthy err)"
proof (cases exchange)
  case (PeerCertExpiry d)
  then show ?thesis by simp
next
  case (Raises e)
  then show ?thesis by (cases e) (simp_all add: Let_def truthy_def)
qed

theorem get_certificate_expiry_total_witness:
  "snd (get_certificate_expiry ''example.com'' 443 10 (PeerCertExpiry (sample_date 3 1)))
     = (''example.com'', Some (sample_date 3 1), None) \<and>
   snd (get_certificate_expiry ''example.com'' 443 10 (Raises (SocketTimeout ''timed out'')))
     = (''example.com'', None, Some ''Connection timeout for example.com'') \<and>
   snd (get_certificate_expiry ''example.com'' 443 10 (Raises (GaiError ''Name or service not known'')))
     = (''example.com'', None, Some ''DNS resolution failed for example.com'') \<and>
   snd (get_certificate_expiry ''example.com'' 443 10 (Raises (SSLError ''CERTIFICATE_VERIFY_FAILED'')))
     = (''example.com'', None, Some ''SSL error for example.com: CERTIFICATE_VERIFY_FAILED'') \<and>
   snd (get_certificate_expiry ''example.com'' 443 10 (Raises (KeyError ''notAfter'')))
     = (''example.com'', None, Some (''Unexpected error for example.com: '' @ sq @ ''notAfter'' @ sq))"
proof -
  have concrete: ?thesis by code_simp
  from get_certificate_expiry_total [of "''example.com''" 443 10 "PeerCertExpiry (sample_date 3 1)"]
    get_certificate_expiry_total [of "''example.com''" 443 10 "Raises (SocketTimeout ''timed out'')"]
  show ?thesis by - (rule concrete)
qed

section \<open>Classification\<close>

text \<open>
  C2. A failed fetch, whatever the exception and whatever the thresholds, is classified
  ERROR and keeps no day count: no threshold is compared.
\<close>

theorem failure_is_error:
  "r_status (check_all_certificates_body cfg st
       (snd (get_certificate_expiry h p t (Raises e))) now) = ''ERROR'' \<and>
   r_days_until_expiry (check_all_certificates_body cfg st
       (snd (get_certificate_expiry h p t (Raises e))) now) = None"
proof -
  obtain m where "snd (get_certificate_expiry h p t (Raises e)) = (h, None, Some m)" "m \<noteq> []"
    using fetch_failure by blast
  then show ?thesis
    by (simp add: check_all_certificates_body_def truthy_def)
qed

theorem failure_is_error_witness:
  "check_all_certificates_body sample_config sample_site
       (snd (get_certificate_expiry ''example.com'' 443 10 (Raises (GaiError ''no such host''))))
       sample_now
   = sample_result ''ERROR'' None (Some ''DNS resolution failed for example.com'')"
proof -
  have concrete: ?thesis by code_simp
  from failure_is_error [of sample_config sample_site "''example.com''" 443 10
      "GaiError ''no such host''" sample_now]
  show ?thesis by - (rule concrete)
qed

text \<open>
  C1. After a successful fetch the result carries a day count, and its status is
  CRITICAL when the count is at most the critical threshold (negative counts included),
  otherwise WARNING when it is at most the warning threshold, otherwise OK. The critical
  test comes first: a count within both thresholds is CRITICAL, also when the critical
  threshold lies above the warning threshold.
\<close>

theorem classification_by_thresholds:
  assumes "result = check_all_certificates_body cfg st
             (snd (get_certificate_expiry h p t (PeerCertExpiry e))) now"
  shows "\<exists>days. r_days_until_expiry result = Some days \<and>
           (days \<le> critical_days cfg \<longrightarrow> r_status result = ''CRITICAL'') \<and>
           (\<not> days \<le> critical_days cfg \<and> days \<le> warning_days cfg
              \<longrightarrow> r_status result = ''WARNING'') \<and>
           (\<not> days \<le> critical_days cfg \<and> \<not> days \<le> warning_days cfg
              \<longrightarrow> r_status result = ''OK'')"
  unfolding assms
  by (simp add: check_all_certificates_body_def critical_days_def warning_days_def Let_def)

theorem classification_by_thresholds_witness:
  "(r_days_until_expiry (classify_sample sample_config (sample_date 1 17) sample_now),
    r_status (classify_sample sample_config (sample_date 1 17) sample_now)) = (Some 7, ''CRITICAL'') \<and>
   (r_days_until_expiry (classify_sample sample_config (sample_date 1 18) sample_now),
    r_status (classify_sample sample_config (sample_date 1 18) sample_now)) = (Some 8, ''WARNING'') \<and>
   (r_days_until_expiry (classify_sample sample_config (sample_date 2 9) sample_now),
    r_status (classify_sample sample_config (sample_date 2 9) sample_now)) = (Some 30, ''WARNING'') \<and>
   (r_days_until_expiry (classify_sample sample_config (sample_date 2 10) sample_now),
    r_status (classify_sample sample_config (sample_date 2 10) sample_now)) = (Some 31, ''OK'') \<and>
   (r_days_until_expiry (classify_sample sample_config (sample_date 1 5) sample_now),
    r_status (classify_sample sample_config (sample_date 1 5) sample_now)) = (Some (- 5), ''CRITICAL'') \<and>
   (critical_days crossed_config, warning_days crossed_config) = (10, 5) \<and>
   (r_days_until_expiry (classify_sample crossed_config (sample_date 1 17) sample_now),
    r_status (classify_sample crossed_config (sample_date 1 17) sample_now)) = (Some 7, ''CRITICAL'')"
proof -
  have concrete: ?thesis by code_simp
  from classification_by_thresholds [OF classify_sample_def [of sample_config "sample_date 1 17" sample_now]]
    classification_by_thresholds [OF classify_sample_def [of sample_config "sample_date 1 18" sample_now]]
    classification_by_thresholds [OF classify_sample_def [of sample_config "sample_date 2 10" sample_now]]
  show ?thesis by - (rule concrete)
qed

section \<open>The day count\<close>

lemma carry_div:
  fixes d s u b c :: int
  assumes b: "0 < b" and c: "0 < c"
  shows "(d * (b * c) + s * c + u) div (c * b) =
         d + s div b + (u div c) div b + (s mod b + (u div c) mod b + (u mod c) div c) div b"
proof -
  have a: "d * (b * c) + s * c + u = (d * b + s) * c + u" by (simp add: algebra_simps)
  have "(d * (b * c) + s * c + u) div (c * b) = (((d * b + s) * c + u) div c) div b"
    using b by (simp only: a zdiv_zmult2_eq[OF less_imp_le[OF b]])
  also have "((d * b + s) * c + u) div c = d * b + s + u div c"
    using c by simp
  also have "(d * b + s + u div c) div b = d + (s + u div c) div b"
    using b by (simp add: add.assoc)
  also have "(s + u div c) div b = s div b + (u div c) div b + (s mod b + (u div c) mod b) div b"
    by (rule div_add1_eq)
  finally show ?thesis using c by simp
qed

lemma timedelta_days:
  "td_days (timedelta_new d s u) = (d * 86400000000 + s * 1000000 + u) div 86400000000"
proof -
  have e: "(86400::int) * 1000000 = 86400000000" "(1000000::int) * 86400 = 86400000000"
    by simp_all
  have "td_days (timedelta_new d s u) =
          d + s div 86400 + (u div 1000000) div 86400
          + (s mod 86400 + (u div 1000000) mod 86400 + (u mod 1000000) div 1000000) div 86400"
    by (simp only: timedelta_new_def Let_def timedelta.select_convs)
  also have "\<dots> = (d * (86400 * 1000000) + s * 1000000 + u) div (1000000 * 86400)"
    by (rule carry_div[symmetric]) simp_all
  finally show ?thesis by (simp only: e)
qed

lemma datetime_sub_days:
  "td_days (datetime_sub e now) = (microseconds_of e - microseconds_of now) div 86400000000"
  unfolding datetime_sub_def Let_def timedelta_days microseconds_of_def
  by (rule arg_cong[where f="\<lambda>x. x div 86400000000"]) (simp add: algebra_simps)

lemma floor_bounds:
  fixes x :: int
  shows "x div 86400000000 * 86400000000 \<le> x \<and> x < (x div 86400000000 + 1) * 86400000000"
proof -
  have m: "0 \<le> x mod 86400000000" "x mod 86400000000 < 86400000000" by simp_all
  have "x = x div 86400000000 * 86400000000 + x mod 86400000000" by simp
  with m show ?thesis by (simp add: algebra_simps) linarith
qed

text \<open>
  The day count is the floor, in whole days, of the distance between the positions of
  the two readings: it rounds toward the earlier value and is negative when the expiry
  reading lies before the clock reading.
\<close>

lemma day_count_floor_of_readings:
  "\<exists>days.
     r_days_until_expiry (check_all_certificates_body cfg st
        (snd (get_certificate_expiry h p t (PeerCertExpiry e))) now) = Some days \<and>
     days = (microseconds_of e - microseconds_of now) div 86400000000 \<and>
     days * 86400000000 \<le> microseconds_of e - microseconds_of now \<and>
     microseconds_of e - microseconds_of now < (days + 1) * 86400000000"
proof -
  have "r_days_until_expiry (check_all_certificates_body cfg st
        (snd (get_certificate_expiry h p t (PeerCertExpiry e))) now)
        = Some ((microseconds_of e - microseconds_of now) div 86400000000)"
    by (simp add: check_all_certificates_body_def Let_def datetime_sub_days)
  with floor_bounds [of "microseconds_of e - microseconds_of now"] show ?thesis by blast
qed

lemma day_count_floor_examples:
  "r_days_until_expiry (classify_sample sample_config (sample_time 1 17 12 0 0 0)
      (sample_time 1 10 12 0 0 0)) = Some 7 \<and>
   r_days_until_expiry (classify_sample sample_config (sample_time 1 17 12 0 0 0)
      (sample_time 1 10 12 0 0 1)) = Some 6 \<and>
   r_days_until_expiry (classify_sample sample_config (sample_time 1 10 11 59 59 0)
      (sample_time 1 10 12 0 0 0)) = Some (- 1) \<and>
   r_days_until_expiry (classify_sample sample_config (sample_time 1 9 12 0 0 0)
      (sample_time 1 10 12 0 0 0)) = Some (- 1) \<and>
   r_days_until_expiry (classify_sample sample_config (sample_time 1 9 11 59 59 0)
      (sample_time 1 10 12 0 0 0)) = Some (- 2) \<and>
   microseconds_of (sample_time 1 10 11 59 59 0) - microseconds_of (sample_time 1 10 12 0 0 0)
     = - 1000000"
  by code_simp

text \<open>The day numbers of the library at known dates, leap years included.\<close>

lemma calendar_anchors:
  "toordinal (sample_time 1 1 0 0 0 0\<lparr>dt_year := 1\<rparr>) = 1 \<and>
   toordinal (sample_time 1 1 0 0 0 0\<lparr>dt_year := 1970\<rparr>) = 719163 \<and>
   toordinal (sample_time 3 1 0 0 0 0\<lparr>dt_year := 1900\<rparr>) = 693655 \<and>
   toordinal (sample_time 2 29 0 0 0 0\<lparr>dt_year := 2000\<rparr>) = 730179 \<and>
   toordinal (sample_time 3 1 0 0 0 0\<lparr>dt_year := 2000\<rparr>) = 730180 \<and>
   toordinal (sample_time 2 29 0 0 0 0\<lparr>dt_year := 2024\<rparr>) = 738945 \<and>
   toordinal (sample_time 12 31 0 0 0 0\<lparr>dt_year := 2024\<rparr>) = 739251 \<and>
   toordinal (sample_time 1 1 0 0 0 0) = 739252 \<and>
   toordinal (sample_time 1 10 0 0 0 0) = 739261 \<and>
   toordinal (sample_time 3 1 0 0 0 0\<lparr>dt_year := 2100\<rparr>) = 766704"
  by code_simp

text \<open>
  C8 on a machine two hours east of UTC. The certificate expires on 18 January at 12:00
  GMT and the check runs at the instant 10 January 11:00 UTC, when \<^verbatim>\<open>datetime.now()\<close>
  reads 13:00. The expiry lies 8 days and 1 hour ahead, whose floor in whole days is 8,
  within the warning threshold only. The program subtracts the local reading from the
  GMT reading, counts 7 days and classifies the host CRITICAL; from the UTC reading of
  the same instant it would count 8 and classify it WARNING.
\<close>

theorem day_count_mixes_gmt_and_local_readings:
  "local_reading 2 (sample_time 1 10 11 0 0 0) = sample_time 1 10 13 0 0 0 \<and>
   r_days_until_expiry (classify_sample sample_config (sample_time 1 18 12 0 0 0)
      (local_reading 2 (sample_time 1 10 11 0 0 0))) = Some 7 \<and>
   r_status (classify_sample sample_config (sample_time 1 18 12 0 0 0)
      (local_reading 2 (sample_time 1 10 11 0 0 0))) = ''CRITICAL'' \<and>
   r_days_until_expiry (classify_sample sample_config (sample_time 1 18 12 0 0 0)
      (sample_time 1 10 11 0 0 0)) = Some 8 \<and>
   r_status (classify_sample sample_config (sample_time 1 18 12 0 0 0)
      (sample_time 1 10 11 0 0 0)) = ''WARNING'' \<and>
   ((18 - 10) * 86400 + (12 - 11) * 3600) div 86400 = (8::int)"
  by code_simp

section \<open>Neither the report nor the senders raise\<close>

lemma body_displayable:
  "displayable (check_all_certificates_body cfg st (snd (get_certificate_expiry h p t exchange)) now)"
proof (cases exchange)
  case (PeerCertExpiry d)
  then show ?thesis by (simp add: check_all_certificates_body_def displayable_def Let_def)
next
  case (Raises e)
  then obtain m where "snd (get_certificate_expiry h p t exchange) = (h, None, Some m)" "m \<noteq> []"
    using fetch_failure by blast
  then show ?thesis by (simp add: check_all_certificates_body_def displayable_def truthy_def)
qed

lemma check_all_displayable:
  "list_all displayable acc \<Longrightarrow> list_all displayable (check_all_certificates cfg acc completed)"
proof (induction completed arbitrary: acc)
  case Nil
  then show ?case by simp
next
  case (Cons c completed)
  obtain st exchange now where c: "c = (st, exchange, now)" by (cases c) auto
  show ?case unfolding c
    by (simp only: check_all_certificates.simps) (rule Cons.IH, simp add: Cons.prems body_displayable)
qed

lemma display_body_ok: "displayable r \<Longrightarrow> snd (display_results_body r) = None"
  by (auto simp: displayable_def display_results_body_def Let_def split: option.splits)

lemma display_loop_ok: "list_all displayable rs \<Longrightarrow> snd (display_results_loop rs) = None"
proof (induction rs)
  case Nil
  then show ?case by simp
next
  case (Cons r rs)
  then have "snd (display_results_body r) = None" "snd (display_results_loop rs) = None"
    by (simp_all add: display_body_ok)
  then show ?case by (cases "display_results_body r"; cases "display_results_loop rs") simp
qed

lemma display_ok: "list_all displayable rs \<Longrightarrow> snd (display_results now rs) = None"
  using display_loop_ok[of rs]
  by (cases "display_results_loop rs") (simp add: display_results_def Let_def)

lemma send_email_alert_returns: "snd (send_email_alert world rs ec) = Inr ()"
  by (cases "send_email_alert_try world rs ec") (auto simp: send_email_alert_def split: sum.splits)

lemma send_webhook_alert_returns: "snd (send_webhook_alert world rs wc) = Inr ()"
  by (cases "send_webhook_alert_try world rs wc") (auto simp: send_webhook_alert_def split: sum.splits)

lemma send_email_alert_pair:
  "send_email_alert world rs ec = (fst (send_email_alert world rs ec), Inr ())"
  using send_email_alert_returns [of world rs ec] by (metis prod.collapse)

lemma send_webhook_alert_pair:
  "send_webhook_alert world rs wc = (fst (send_webhook_alert world rs wc), Inr ())"
  using send_webhook_alert_returns [of world rs wc] by (metis prod.collapse)

lemma send_alerts_returns: "snd (send_alerts world cfg results) = Inr ()"
proof -
  obtain ev1 where ev1: "send_email_alert world (alert_results results)
         (get_default (ac_email (get_default (cfg_alerts cfg) no_alerts_config)) no_email_config)
         = (ev1, Inr ())"
    using send_email_alert_pair by blast
  obtain ev2 where ev2: "send_webhook_alert world (alert_results results)
         (get_default (ac_webhook (get_default (cfg_alerts cfg) no_alerts_config)) no_webhook_config)
         = (ev2, Inr ())"
    using send_webhook_alert_pair by blast
  show ?thesis
    by (simp add: send_alerts_def Let_def ev1 ev2)
qed

lemma main_exit:
  "snd (main world cfg quiet completed now) = main_exit_code (check_all_certificates cfg [] completed)"
proof -
  have d: "snd (display_results now (check_all_certificates cfg [] completed)) = None"
    by (rule display_ok, rule check_all_displayable) simp
  obtain pr where pr: "display_results now (check_all_certificates cfg [] completed) = (pr, None)"
    using d by (metis prod.collapse)
  obtain sent where sent: "send_alerts world cfg (check_all_certificates cfg [] completed) = (sent, Inr ())"
    using send_alerts_returns by (metis prod.collapse)
  show ?thesis by (simp add: main_def Let_def pr sent)
qed

section \<open>The exit code selected\<close>

lemma count_pos: "(0 < sum_list (map (\<lambda>r. (1::int)) (filter P xs))) = (\<exists>x\<in>set xs. P x)"
  by (induction xs) (auto simp: add_pos_nonneg sum_list_nonneg)

text \<open>
  C3. For every list of results the exit code selected at the end of \<^verbatim>\<open>main\<close> is 0
  when every host is OK, 1 when some host is in ERROR and none is CRITICAL, and 2 when
  some host is CRITICAL, whether or not another is in ERROR. A run of \<^verbatim>\<open>main\<close> always
  reaches that selection: its exit code is the one selected for the results of its checks.
\<close>

theorem exit_code_by_status:
  "(list_all (\<lambda>r. r_status r = ''OK'') results \<longrightarrow> main_exit_code results = 0) \<and>
   ((\<exists>r\<in>set results. r_status r = ''ERROR'') \<and> \<not> (\<exists>r\<in>set results. r_status r = ''CRITICAL'')
      \<longrightarrow> main_exit_code results = 1) \<and>
   ((\<exists>r\<in>set results. r_status r = ''CRITICAL'') \<longrightarrow> main_exit_code results = 2) \<and>
   snd (main world cfg quiet completed now) = main_exit_code (check_all_certificates cfg [] completed)"
  by (auto simp: main_exit_code_def Let_def count_pos main_exit list_all_iff)

theorem exit_code_by_status_witness:
  "main_exit_code [sample_result ''OK'' (Some 90) None, sample_result ''OK'' (Some 45) None] = 0 \<and>
   main_exit_code [sample_result ''OK'' (Some 90) None,
                   sample_result ''ERROR'' None (Some ''Connection timeout for example.com'')] = 1 \<and>
   main_exit_code [sample_result ''ERROR'' None (Some ''Connection timeout for example.com''),
                   sample_result ''CRITICAL'' (Some 3) None,
                   sample_result ''OK'' (Some 90) None] = 2 \<and>
   main_exit_code [sample_result ''CRITICAL'' (Some 3) None,
                   sample_result ''ERROR'' None (Some ''Connection timeout for example.com'')] = 2 \<and>
   snd (main broken_world sample_config False
          [(sample_site, Raises (SocketTimeout ''timed out''), sample_now),
           (sample_site, PeerCertExpiry (sample_date 1 12), sample_now)] sample_now) = 2 \<and>
   snd (main broken_world sample_config False
          [(sample_site, Raises (SocketTimeout ''timed out''), sample_now),
           (sample_site, PeerCertExpiry (sample_date 3 12), sample_now)] sample_now) = 1"
proof -
  have concrete: ?thesis by code_simp
  from exit_code_by_status [of "[sample_result ''OK'' (Some 90) None, sample_result ''OK'' (Some 45) None]"
      broken_world sample_config False
      "[(sample_site, Raises (SocketTimeout ''timed out''), sample_now),
        (sample_site, PeerCertExpiry (sample_date 1 12), sample_now)]" sample_now]
    exit_code_by_status [of "[sample_result ''OK'' (Some 90) None,
        sample_result ''ERROR'' None (Some ''Connection timeout for example.com'')]"]
    exit_code_by_status [of "[sample_result ''ERROR'' None (Some ''Connection timeout for example.com''),
        sample_result ''CRITICAL'' (Some 3) None, sample_result ''OK'' (Some 90) None]"]
  show ?thesis by - (rule concrete)
qed

section \<open>The alert channels\<close>

lemma send_alerts_trace:
  assumes "alerts_on cfg" and "alert_results results \<noteq> []"
  shows "fst (send_alerts world cfg results) =
           (if email_on cfg
            then fst (send_email_alert world (alert_results results) (email_of cfg)) else [])
           @ (if webhook_on cfg
              then fst (send_webhook_alert world (alert_results results) (webhook_of cfg)) else [])"
proof -
  obtain ev1 where e: "send_email_alert world (alert_results results) (email_of cfg) = (ev1, Inr ())"
    using send_email_alert_pair by blast
  obtain ev2 where w: "send_webhook_alert world (alert_results results) (webhook_of cfg) = (ev2, Inr ())"
    using send_webhook_alert_pair by blast
  have "send_alerts world cfg results =
          (case (if email_on cfg
                 then send_email_alert world (alert_results results) (email_of cfg)
                 else ([], Inr ()))
           of (events1, Inl e) \<Rightarrow> (events1, Inl e)
            | (events1, Inr u) \<Rightarrow>
                (case (if webhook_on cfg
                       then send_webhook_alert world (alert_results results) (webhook_of cfg)
                       else ([], Inr ()))
                 of (events2, outcome) \<Rightarrow> (events1 @ events2, outcome)))"
    using assms
    by (simp add: send_alerts_def Let_def alerts_on_def alerts_of_def email_on_def email_of_def
        webhook_on_def webhook_of_def)
  then show ?thesis
    by (cases "email_on cfg"; cases "webhook_on cfg") (simp_all add: e w)
qed

lemma send_alerts_quiet:
  "\<not> alerts_on cfg \<or> alert_results results = [] \<Longrightarrow>
     filter is_send (fst (send_alerts world cfg results)) = []"
  by (auto simp: send_alerts_def Let_def alerts_on_def alerts_of_def)

lemma webhook_ignores_smtp:
  "send_webhook_alert (world\<lparr>env_smtp := smtp\<rparr>) rs wc = send_webhook_alert world rs wc"
  by (auto simp: send_webhook_alert_def send_webhook_alert_try_def Let_def split: option.splits)

lemma email_ignores_http:
  "send_email_alert (world\<lparr>env_http := http\<rparr>) rs ec = send_email_alert world rs ec"
  by (auto simp: send_email_alert_def send_email_alert_try_def Let_def split: option.splits)

lemma email_try_no_post:
  "filter is_http_post (fst (send_email_alert_try world rs ec)) = []"
  by (simp add: send_email_alert_try_def Let_def split: option.splits)

lemma email_no_post: "filter is_http_post (fst (send_email_alert world rs ec)) = []"
  using email_try_no_post [of world rs ec]
  by (cases "send_email_alert_try world rs ec") (auto simp: send_email_alert_def split: sum.splits)

lemma webhook_try_no_smtp:
  "filter is_smtp_session (fst (send_webhook_alert_try world rs wc)) = []"
  by (simp add: send_webhook_alert_try_def Let_def split: option.splits)

lemma webhook_no_smtp: "filter is_smtp_session (fst (send_webhook_alert world rs wc)) = []"
  using webhook_try_no_smtp [of world rs wc]
  by (cases "send_webhook_alert_try world rs wc") (auto simp: send_webhook_alert_def split: sum.splits)

lemma posts_of_send_alerts:
  assumes "alerts_on cfg" and "alert_results results \<noteq> []"
  shows "filter is_http_post (fst (send_alerts world cfg results)) =
          (if webhook_on cfg
           then filter is_http_post (fst (send_webhook_alert world (alert_results results) (webhook_of cfg)))
           else [])"
  by (simp add: send_alerts_trace [OF assms] email_no_post)

lemma sessions_of_send_alerts:
  assumes "alerts_on cfg" and "alert_results results \<noteq> []"
  shows "filter is_smtp_session (fst (send_alerts world cfg results)) =
          (if email_on cfg
           then filter is_smtp_session (fst (send_email_alert world (alert_results results) (email_of cfg)))
           else [])"
  by (simp add: send_alerts_trace [OF assms] webhook_no_smtp)

lemma webhook_posts:
  assumes "wc_url wc = Some u"
    and "get_default (wc_type wc) ''slack'' = ''slack'' \<or> get_default (wc_type wc) ''slack'' = ''teams''"
  shows "filter is_http_post (fst (send_webhook_alert world rs wc)) =
           [HttpPost u (if get_default (wc_type wc) ''slack'' = ''slack''
                        then SlackJson (create_slack_payload (env_clock world) rs)
                        else TeamsJson (create_teams_payload rs))]"
  using assms
  by (auto simp: send_webhook_alert_def send_webhook_alert_try_def Let_def split: option.splits)

lemma email_sessions:
  assumes "ec_from ec = Some f" and "ec_to ec = Some tos"
    and "ec_smtp_server ec = Some server" and "ec_smtp_port ec = Some pt"
  shows "\<exists>request. filter is_smtp_session (fst (send_email_alert world rs ec)) = [SmtpSession request]
           \<and> rq_server request = server \<and> rq_port request = pt
           \<and> em_html (rq_message request) = create_alert_message rs ''email''"
  using assms
  by (auto simp: send_email_alert_def send_email_alert_try_def Let_def split: option.splits)


lemma posts_ignore_smtp:
  "filter is_http_post (fst (send_alerts (world\<lparr>env_smtp := smtp\<rparr>) cfg results))
     = filter is_http_post (fst (send_alerts world cfg results))"
proof (cases "alerts_on cfg \<and> alert_results results \<noteq> []")
  case True
  then show ?thesis by (simp add: posts_of_send_alerts webhook_ignores_smtp)
next
  case False
  then have "\<not> alerts_on cfg \<or> alert_results results = []" by blast
  then show ?thesis
    by (auto simp: send_alerts_def Let_def alerts_on_def alerts_of_def)
qed

lemma sessions_ignore_http:
  "filter is_smtp_session (fst (send_alerts (world\<lparr>env_http := http\<rparr>) cfg results))
     = filter is_smtp_session (fst (send_alerts world cfg results))"
proof (cases "alerts_on cfg \<and> alert_results results \<noteq> []")
  case True
  then show ?thesis by (simp add: sessions_of_send_alerts email_ignores_http)
next
  case False
  then have "\<not> alerts_on cfg \<or> alert_results results = []" by blast
  then show ?thesis
    by (auto simp: send_alerts_def Let_def alerts_on_def alerts_of_def)
qed

text \<open>
  C7. \<^verbatim>\<open>send_alerts\<close> never raises, whatever the deliveries meet, and the exit code of a
  run does not depend on them. The webhook requests made do not depend on what the SMTP
  session meets, nor the SMTP sessions on what the webhook request meets. With alerts
  enabled and a result to report, an enabled webhook of type slack or teams with a URL is
  posted to exactly once, and an enabled e-mail channel with sender, recipients, server
  and port opens exactly one SMTP session for the message, in every world: also in one
  where the other channel fails.
\<close>

theorem channels_attempted_independently:
  "snd (send_alerts world cfg results) = Inr () \<and>
   snd (main world cfg quiet completed now) = snd (main world' cfg quiet completed now) \<and>
   filter is_http_post (fst (send_alerts (world\<lparr>env_smtp := smtp\<rparr>) cfg results))
     = filter is_http_post (fst (send_alerts world cfg results)) \<and>
   filter is_smtp_session (fst (send_alerts (world\<lparr>env_http := http\<rparr>) cfg results))
     = filter is_smtp_session (fst (send_alerts world cfg results)) \<and>
   (alerts_on cfg \<and> alert_results results \<noteq> [] \<and> webhook_on cfg \<and>
    wc_url (webhook_of cfg) = Some u \<and>
    (get_default (wc_type (webhook_of cfg)) ''slack'' = ''slack''
     \<or> get_default (wc_type (webhook_of cfg)) ''slack'' = ''teams'')
    \<longrightarrow> filter is_http_post (fst (send_alerts world cfg results)) =
          [HttpPost u (if get_default (wc_type (webhook_of cfg)) ''slack'' = ''slack''
                       then SlackJson (create_slack_payload (env_clock world) (alert_results results))
                       else TeamsJson (create_teams_payload (alert_results results)))]) \<and>
   (alerts_on cfg \<and> alert_results results \<noteq> [] \<and> email_on cfg \<and>
    ec_from (email_of cfg) = Some sender \<and> ec_to (email_of cfg) = Some recipients \<and>
    ec_smtp_server (email_of cfg) = Some server \<and> ec_smtp_port (email_of cfg) = Some smtp_port
    \<longrightarrow> (\<exists>request.
           filter is_smtp_session (fst (send_alerts world cfg results)) = [SmtpSession request] \<and>
           rq_server request = server \<and> rq_port request = smtp_port \<and>
           em_html (rq_message request) = create_alert_message (alert_results results) ''email''))"
proof -
  have a: "snd (send_alerts world cfg results) = Inr ()" by (rule send_alerts_returns)
  have b: "snd (main world cfg quiet completed now) = snd (main world' cfg quiet completed now)"
    by (simp only: main_exit)
  note c = posts_ignore_smtp [of smtp world cfg results]
  note d = sessions_ignore_http [of http world cfg results]
  have e: "alerts_on cfg \<and> alert_results results \<noteq> [] \<and> webhook_on cfg \<and>
    wc_url (webhook_of cfg) = Some u \<and>
    (get_default (wc_type (webhook_of cfg)) ''slack'' = ''slack''
     \<or> get_default (wc_type (webhook_of cfg)) ''slack'' = ''teams'')
    \<longrightarrow> filter is_http_post (fst (send_alerts world cfg results)) =
          [HttpPost u (if get_default (wc_type (webhook_of cfg)) ''slack'' = ''slack''
                       then SlackJson (create_slack_payload (env_clock world) (alert_results results))
                       else TeamsJson (create_teams_payload (alert_results results)))]"
  proof
    assume h: "alerts_on cfg \<and> alert_results results \<noteq> [] \<and> webhook_on cfg \<and>
      wc_url (webhook_of cfg) = Some u \<and>
      (get_default (wc_type (webhook_of cfg)) ''slack'' = ''slack''
       \<or> get_default (wc_type (webhook_of cfg)) ''slack'' = ''teams'')"
    then have "filter is_http_post (fst (send_alerts world cfg results)) =
        filter is_http_post (fst (send_webhook_alert world (alert_results results) (webhook_of cfg)))"
      by (simp add: posts_of_send_alerts)
    also have "\<dots> = [HttpPost u (if get_default (wc_type (webhook_of cfg)) ''slack'' = ''slack''
                       then SlackJson (create_slack_payload (env_clock world) (alert_results results))
                       else TeamsJson (create_teams_payload (alert_results results)))]"
      using h by (intro webhook_posts) blast+
    finally show "filter is_http_post (fst (send_alerts world cfg results)) =
          [HttpPost u (if get_default (wc_type (webhook_of cfg)) ''slack'' = ''slack''
                       then SlackJson (create_slack_payload (env_clock world) (alert_results results))
                       else TeamsJson (create_teams_payload (alert_results results)))]" .
  qed
  have f: "alerts_on cfg \<and> alert_results results \<noteq> [] \<and> email_on cfg \<and>
    ec_from (email_of cfg) = Some sender \<and> ec_to (email_of cfg) = Some recipients \<and>
    ec_smtp_server (email_of cfg) = Some server \<and> ec_smtp_port (email_of cfg) = Some smtp_port
    \<longrightarrow> (\<exists>request.
           filter is_smtp_session (fst (send_alerts world cfg results)) = [SmtpSession request] \<and>
           rq_server request = server \<and> rq_port request = smtp_port \<and>
           em_html (rq_message request) = create_alert_message (alert_results results) ''email'')"
  proof
    assume h: "alerts_on cfg \<and> alert_results results \<noteq> [] \<and> email_on cfg \<and>
      ec_from (email_of cfg) = Some sender \<and> ec_to (email_of cfg) = Some recipients \<and>
      ec_smtp_server (email_of cfg) = Some server \<and> ec_smtp_port (email_of cfg) = Some smtp_port"
    then have "filter is_smtp_session (fst (send_alerts world cfg results)) =
        filter is_smtp_session (fst (send_email_alert world (alert_results results) (email_of cfg)))"
      by (simp add: sessions_of_send_alerts)
    moreover have "\<exists>request.
        filter is_smtp_session (fst (send_email_alert world (alert_results results) (email_of cfg)))
          = [SmtpSession request] \<and>
        rq_server request = server \<and> rq_port request = smtp_port \<and>
        em_html (rq_message request) = create_alert_message (alert_results results) ''email''"
      using h by (intro email_sessions) blast+
    ultimately show "\<exists>request.
           filter is_smtp_session (fst (send_alerts world cfg results)) = [SmtpSession request] \<and>
           rq_server request = server \<and> rq_port request = smtp_port \<and>
           em_html (rq_message request) = create_alert_message (alert_results results) ''email''"
      by simp
  qed
  from a b c d e f show ?thesis by blast
qed

theorem channels_attempted_independently_witness:
  "alerts_on sample_config \<and> email_on sample_config \<and> webhook_on sample_config \<and>
   alert_results [sample_result ''CRITICAL'' (Some 3) None, sample_result ''OK'' (Some 90) None]
     = [sample_result ''CRITICAL'' (Some 3) None] \<and>
   filter is_http_post (fst (send_alerts broken_world sample_config
       [sample_result ''CRITICAL'' (Some 3) None, sample_result ''OK'' (Some 90) None]))
     = [HttpPost ''https://hooks.example.com/T0''
          (SlackJson (create_slack_payload (env_clock broken_world)
             [sample_result ''CRITICAL'' (Some 3) None]))] \<and>
   length (filter is_smtp_session (fst (send_alerts broken_world sample_config
       [sample_result ''CRITICAL'' (Some 3) None, sample_result ''OK'' (Some 90) None]))) = 1 \<and>
   filter is_log_error (fst (send_alerts broken_world sample_config
       [sample_result ''CRITICAL'' (Some 3) None, sample_result ''OK'' (Some 90) None]))
     = [LogError ''Failed to send email alert: Connection refused'',
        LogError ''Failed to send webhook alert: 503 Server Error''] \<and>
   snd (send_alerts broken_world sample_config
       [sample_result ''CRITICAL'' (Some 3) None, sample_result ''OK'' (Some 90) None]) = Inr ()"
proof -
  have concrete: ?thesis by code_simp
  from channels_attempted_independently [of broken_world sample_config
      "[sample_result ''CRITICAL'' (Some 3) None, sample_result ''OK'' (Some 90) None]"]
  show ?thesis by - (rule concrete)
qed

section \<open>Which results are alerted\<close>

lemma alert_results_idem: "alert_results (alert_results rs) = alert_results rs"
  by (simp add: alert_results_def)

lemma send_alerts_filtered: "send_alerts world cfg (alert_results rs) = send_alerts world cfg rs"
  by (simp only: send_alerts_def alert_results_idem)

lemma email_try_built: "list_all (built_from world rs) (fst (send_email_alert_try world rs ec))"
  by (simp add: send_email_alert_try_def Let_def split: option.splits)

lemma email_built: "list_all (built_from world rs) (fst (send_email_alert world rs ec))"
  using email_try_built [of world rs ec]
  by (cases "send_email_alert_try world rs ec") (auto simp: send_email_alert_def split: sum.splits)

lemma webhook_try_built: "list_all (built_from world rs) (fst (send_webhook_alert_try world rs wc))"
  by (simp add: send_webhook_alert_try_def Let_def split: option.splits)

lemma webhook_built: "list_all (built_from world rs) (fst (send_webhook_alert world rs wc))"
  using webhook_try_built [of world rs wc]
  by (cases "send_webhook_alert_try world rs wc") (auto simp: send_webhook_alert_def split: sum.splits)

lemma send_alerts_built:
  "list_all (built_from world (alert_results rs)) (fst (send_alerts world cfg rs))"
proof (cases "alerts_on cfg \<and> alert_results rs \<noteq> []")
  case True
  then show ?thesis by (simp add: send_alerts_trace email_built webhook_built)
next
  case False
  then have "\<not> alerts_on cfg \<or> alert_results rs = []" by blast
  then show ?thesis
    by (auto simp: send_alerts_def Let_def alerts_on_def alerts_of_def)
qed

text \<open>
  C4. The results \<^verbatim>\<open>send_alerts\<close> selects are exactly those of the run whose status is
  WARNING, CRITICAL or ERROR; none of them is OK. Every message handed to SMTP and every
  payload posted is rendered from that selection alone, and the run of \<^verbatim>\<open>send_alerts\<close>
  is the same as on the selection by itself, so an OK result has no part in any alert.
  When the selection is empty no delivery is attempted on any channel and the method
  returns normally.
\<close>

theorem alerts_only_for_non_ok:
  "(\<forall>r. (r \<in> set (alert_results results)) =
         (r \<in> set results \<and>
          (r_status r = ''WARNING'' \<or> r_status r = ''CRITICAL'' \<or> r_status r = ''ERROR''))) \<and>
   ''OK'' \<notin> r_status ` set (alert_results results) \<and>
   list_all (built_from world (alert_results results)) (fst (send_alerts world cfg results)) \<and>
   send_alerts world cfg (alert_results results) = send_alerts world cfg results \<and>
   (alert_results results = [] \<longrightarrow>
      filter is_send (fst (send_alerts world cfg results)) = [] \<and>
      snd (send_alerts world cfg results) = Inr ())"
proof -
  have a: "\<forall>r. (r \<in> set (alert_results results)) =
         (r \<in> set results \<and>
          (r_status r = ''WARNING'' \<or> r_status r = ''CRITICAL'' \<or> r_status r = ''ERROR''))"
    by (auto simp: alert_results_def)
  have b: "''OK'' \<notin> r_status ` set (alert_results results)"
    by (auto simp: alert_results_def)
  have e: "alert_results results = [] \<longrightarrow>
      filter is_send (fst (send_alerts world cfg results)) = [] \<and>
      snd (send_alerts world cfg results) = Inr ()"
    by (simp add: send_alerts_quiet send_alerts_returns)
  from a b send_alerts_built [of world results cfg] send_alerts_filtered [of world cfg results] e
  show ?thesis by blast
qed

theorem alerts_only_for_non_ok_witness:
  "alert_results [sample_result ''OK'' (Some 90) None, sample_result ''WARNING'' (Some 20) None,
                  sample_result ''OK'' (Some 45) None,
                  sample_result ''ERROR'' None (Some ''Connection timeout for example.com'')]
     = [sample_result ''WARNING'' (Some 20) None,
        sample_result ''ERROR'' None (Some ''Connection timeout for example.com'')] \<and>
   alert_results [sample_result ''OK'' (Some 90) None, sample_result ''OK'' (Some 45) None] = [] \<and>
   send_alerts calm_world sample_config
      [sample_result ''OK'' (Some 90) None, sample_result ''OK'' (Some 45) None]
     = ([LogInfo ''No certificates require alerts''], Inr ()) \<and>
   map is_send (fst (send_alerts calm_world sample_config
      [sample_result ''OK'' (Some 90) None, sample_result ''WARNING'' (Some 20) None]))
     = [True, False, True, False]"
proof -
  have concrete: ?thesis by code_simp
  from alerts_only_for_non_ok [of "[sample_result ''OK'' (Some 90) None, sample_result ''OK'' (Some 45) None]"
      calm_world sample_config]
  show ?thesis by - (rule concrete)
qed

section \<open>Slack and Teams render the same entries\<close>

lemma slack_attachments_entries:
  "map slack_entry (slack_attachments clock i rs) = map alert_entry rs"
  by (induction rs arbitrary: i)
     (simp_all add: slack_entry_def slack_fields_def alert_entry_def split: option.splits)

lemma slack_attachments_length: "length (slack_attachments clock i rs) = length rs"
  by (induction rs arbitrary: i) simp_all

lemma teams_sections_entries: "map teams_entry (teams_sections rs) = map alert_entry rs"
  by (induction rs)
     (simp_all add: teams_entry_def teams_facts_def alert_entry_def split: option.splits)

lemma teams_sections_length: "length (teams_sections rs) = length rs"
  by (induction rs) simp_all

lemma alert_entry_status: "map_of (alert_entry r) ''Status'' = Some (r_status r)"
  by (simp add: alert_entry_def)

lemma alert_entry_days:
  "map_of (alert_entry r) ''Days Until Expiry'' = map_option str_int (r_days_until_expiry r)"
  by (simp add: alert_entry_def split: option.splits)

text \<open>
  C9. Built from the same results, the Slack payload has one attachment per result and
  the Teams payload one section per result, in the same order, and corresponding entries
  hold the same titles and values: in particular the same status and the same day count
  (or none in both when the result has no day count).
\<close>

theorem slack_and_teams_agree:
  "length (sp_attachments (create_slack_payload clock rs)) = length rs \<and>
   length (tp_sections (create_teams_payload rs)) = length rs \<and>
   map slack_entry (sp_attachments (create_slack_payload clock rs))
     = map teams_entry (tp_sections (create_teams_payload rs)) \<and>
   map (\<lambda>a. map_of (slack_entry a) ''Status'') (sp_attachments (create_slack_payload clock rs))
     = map (\<lambda>r. Some (r_status r)) rs \<and>
   map (\<lambda>s. map_of (teams_entry s) ''Status'') (tp_sections (create_teams_payload rs))
     = map (\<lambda>r. Some (r_status r)) rs \<and>
   map (\<lambda>a. map_of (slack_entry a) ''Days Until Expiry'')
       (sp_attachments (create_slack_payload clock rs))
     = map (\<lambda>r. map_option str_int (r_days_until_expiry r)) rs \<and>
   map (\<lambda>s. map_of (teams_entry s) ''Days Until Expiry'') (tp_sections (create_teams_payload rs))
     = map (\<lambda>r. map_option str_int (r_days_until_expiry r)) rs"
proof -
  have s: "map slack_entry (sp_attachments (create_slack_payload clock rs)) = map alert_entry rs"
    by (simp add: create_slack_payload_def slack_attachments_entries)
  have t: "map teams_entry (tp_sections (create_teams_payload rs)) = map alert_entry rs"
    by (simp add: create_teams_payload_def teams_sections_entries)
  have look: "\<And>k xs. map (\<lambda>a. map_of (slack_entry a) k) xs = map (\<lambda>e. map_of e k) (map slack_entry xs)"
    "\<And>k xs. map (\<lambda>a. map_of (teams_entry a) k) xs = map (\<lambda>e. map_of e k) (map teams_entry xs)"
    by simp_all
  show ?thesis
    by (simp only: look s t)
       (simp add: create_slack_payload_def create_teams_payload_def slack_attachments_length
          teams_sections_length alert_entry_status alert_entry_days)
qed


theorem slack_and_teams_agree_witness:
  "map slack_entry (sp_attachments (create_slack_payload (env_clock calm_world)
      [sample_result ''WARNING'' (Some 20) None,
       sample_result ''ERROR'' None (Some ''Connection timeout for example.com'')]))
     = [[(''Website'', ''example.com:443''), (''Status'', ''WARNING''), (''Days Until Expiry'', ''20'')],
        [(''Website'', ''example.com:443''), (''Status'', ''ERROR''),
         (''Error'', ''Connection timeout for example.com'')]] \<and>
   map teams_entry (tp_sections (create_teams_payload
      [sample_result ''WARNING'' (Some 20) None,
       sample_result ''ERROR'' None (Some ''Connection timeout for example.com'')]))
     = [[(''Website'', ''example.com:443''), (''Status'', ''WARNING''), (''Days Until Expiry'', ''20'')],
        [(''Website'', ''example.com:443''), (''Status'', ''ERROR''),
         (''Error'', ''Connection timeout for example.com'')]]"
proof -
  have concrete: ?thesis by code_simp
  from slack_and_teams_agree [of "env_clock calm_world"
      "[sample_result ''WARNING'' (Some 20) None,
        sample_result ''ERROR'' None (Some ''Connection timeout for example.com'')]"]
  show ?thesis by - (rule concrete)
qed

section \<open>What an alert entry holds\<close>























text \<open>
  C5 at a certificate whose expiry reading lies half an hour before the clock reading
  (the result a machine one hour east of UTC computes half an hour before the expiry, or
  any machine when the certificate expires between the handshake and the classification):
  the day count is -1 and the status CRITICAL. The console report prints the line that
  says the certificate has expired, while the Slack attachment, the Teams section and the
  e-mail render the result as any other CRITICAL one, with the day count -1 and no word
  of expiry.
\<close>

theorem expired_only_flagged_on_console:
  "classify_sample sample_config (sample_time 1 10 11 30 0 0) (sample_time 1 10 12 0 0 0)
     = \<lparr>r_hostname = ''example.com'', r_port = 443,
        r_expiry_date = Some (sample_time 1 10 11 30 0 0), r_error = None,
        r_days_until_expiry = Some (- 1), r_status = ''CRITICAL''\<rparr> \<and>
   Print (warning_emoji @ ''  CERTIFICATE HAS EXPIRED!'')
     \<in> set (fst (display_results (sample_time 1 10 12 0 0 0)
          [classify_sample sample_config (sample_time 1 10 11 30 0 0) (sample_time 1 10 12 0 0 0)])) \<and>
   map slack_entry (sp_attachments (create_slack_payload (env_clock calm_world)
      [classify_sample sample_config (sample_time 1 10 11 30 0 0) (sample_time 1 10 12 0 0 0)]))
     = [[(''Website'', ''example.com:443''), (''Status'', ''CRITICAL''),
         (''Days Until Expiry'', ''-1'')]] \<and>
   map sa_color (sp_attachments (create_slack_payload (env_clock calm_world)
      [classify_sample sample_config (sample_time 1 10 11 30 0 0) (sample_time 1 10 12 0 0 0)]))
     = [''danger''] \<and>
   map teams_entry (tp_sections (create_teams_payload
      [classify_sample sample_config (sample_time 1 10 11 30 0 0) (sample_time 1 10 12 0 0 0)]))
     = [[(''Website'', ''example.com:443''), (''Status'', ''CRITICAL''),
         (''Days Until Expiry'', ''-1'')]] \<and>
   map ts_activityTitle (tp_sections (create_teams_payload
      [classify_sample sample_config (sample_time 1 10 11 30 0 0) (sample_time 1 10 12 0 0 0)]))
     = [''Certificate Alert: example.com''] \<and>
   \<not> mentions_expired (create_alert_message
      [classify_sample sample_config (sample_time 1 10 11 30 0 0) (sample_time 1 10 12 0 0 0)]
      ''email'') \<and>
   contains ''<td>-1</td>'' (create_alert_message
      [classify_sample sample_config (sample_time 1 10 11 30 0 0) (sample_time 1 10 12 0 0 0)]
      ''email'') \<and>
   mentions_expired (warning_emoji @ ''  CERTIFICATE HAS EXPIRED!'')"
  by code_simp

end
